theory Spec2Isabelle
  imports Complex_Main
begin

section \<open>The QuantumAlgorithm base class of qiskit_aqua\<close>

text \<open>
  A shallow embedding of \<^verbatim>\<open>qiskit_aqua/algorithms/quantumalgorithm.py\<close>: the
  instance state of \<^verbatim>\<open>QuantumAlgorithm\<close> is a record that every method takes
  and returns, an exception is the \<open>Inl\<close> branch of a sum, and the collaborators the
  module calls (the Aer and IBMQ providers of qiskit, the stored preferences, the
  circuit runner) are parameters.
\<close>

subsection \<open>Python strings\<close>

text \<open>
  A \<open>string\<close> stands for a Python \<^verbatim>\<open>str\<close> whose code points are below 256, one
  \<open>char\<close> per code point. \<open>py_repr_str\<close> is \<^verbatim>\<open>repr\<close> on such a string and
  \<open>py_str_list\<close> is \<^verbatim>\<open>str\<close> on a list of them, which is what
  \<^verbatim>\<open>'{}'.format(xs)\<close> prints as well.
\<close>

definition squote :: char where
  "squote = CHR 0x27"

definition dquote :: char where
  "dquote = CHR 0x22"

definition backslash :: char where
  "backslash = CHR 0x5C"

definition hexdigit :: "nat \<Rightarrow> char" where
  "hexdigit n = ''0123456789abcdef'' ! (n mod 16)"

definition py_repr_char :: "char \<Rightarrow> char \<Rightarrow> string" where
  "py_repr_char q c =
     (let n = (of_char c :: nat) in
      if c = q \<or> c = backslash then [backslash, c]
      else if c = CHR 0x09 then [backslash, CHR ''t'']
      else if c = CHR 0x0A then [backslash, CHR ''n'']
      else if c = CHR 0x0D then [backslash, CHR ''r'']
      else if n < 0x20 \<or> (0x7F \<le> n \<and> n \<le> 0xA0) \<or> n = 0xAD
        then [backslash, CHR ''x'', hexdigit (n div 16), hexdigit n]
      else [c])"

definition py_repr_str :: "string \<Rightarrow> string" where
  "py_repr_str s =
     (let q = (if squote \<in> set s \<and> dquote \<notin> set s then dquote else squote)
      in [q] @ concat (map (py_repr_char q) s) @ [q])"

fun join :: "string \<Rightarrow> string list \<Rightarrow> string" where
  "join sep [] = []"
| "join sep [x] = x"
| "join sep (x # y # ys) = x @ sep @ join sep (y # ys)"

definition py_str_list :: "string list \<Rightarrow> string" where
  "py_str_list xs = ''['' @ join '', '' (map py_repr_str xs) @ '']''"

fun startswith :: "string \<Rightarrow> string \<Rightarrow> bool" where
  "startswith s [] = True"
| "startswith [] (p # ps) = False"
| "startswith (c # cs) (p # ps) = (c = p \<and> startswith cs ps)"

text \<open>\<^verbatim>\<open>d.get(k, default)\<close> on a dictionary written as an association list.\<close>

definition dict_get :: "('k \<times> 'v) list \<Rightarrow> 'k \<Rightarrow> 'v \<Rightarrow> 'v" where
  "dict_get d k dflt = (case map_of d k of None \<Rightarrow> dflt | Some v \<Rightarrow> v)"

subsection \<open>Data\<close>

datatype error = AquaError string | KeyError string | ValueError string | OtherError string

text \<open>
  The values the module only stores and hands on. \<open>timeout\<close> and \<open>wait\<close> are Python
  floats that are never computed with, so \<open>real\<close> stands for them.
\<close>

type_synonym noise_params = "(string \<times> real) list"
type_synonym coupling = "nat list list"
type_synonym layout = "(string \<times> nat) list"
type_synonym hpc = "(string \<times> int) list"
type_synonym proxies = "(string \<times> string) list"

text \<open>Basis gates are one delimited \<^verbatim>\<open>str\<close> or a \<^verbatim>\<open>list\<close> of gate names.\<close>

datatype gates = GStr string | GList "string list"

text \<open>What \<^verbatim>\<open>backend.configuration()\<close> tells about a \<^verbatim>\<open>BaseBackend\<close>.\<close>

record backend =
  conf_backend_name :: string
  conf_simulator :: bool
  conf_local :: bool
  conf_basis_gates :: "gates option"
  conf_coupling_map :: "coupling option"

text \<open>The \<^verbatim>\<open>backend\<close> argument of setup: a \<^verbatim>\<open>str\<close> or a \<^verbatim>\<open>BaseBackend\<close>.\<close>

datatype backend_ref = Name string | Handle backend

text \<open>The dictionary literal that setup stores in \<^verbatim>\<open>_execute_config\<close>, key by key.\<close>

record execute_config =
  ec_shots :: int
  ec_skip_transpiler :: bool
  ec_config_noise_params :: "noise_params option"
  ec_basis_gates :: "gates option"
  ec_coupling_map :: "coupling option"
  ec_initial_layout :: "layout option"
  ec_max_credits :: int
  ec_seed :: "int option"
  ec_qobj_id :: "unit option"
  ec_hpc :: "hpc option"

text \<open>
  A random source: the \<^verbatim>\<open>numpy.random\<close> module, which the whole process
  shares, or a \<^verbatim>\<open>RandomState\<close> object, with the address it was allocated at and
  the seed it was built from.
\<close>

datatype rsource = NpRandom | RandomState nat int

text \<open>
  The fields \<^verbatim>\<open>__init__\<close> sets. \<^verbatim>\<open>_execute_config\<close> is \<open>None\<close> while it is
  the empty dictionary; \<^verbatim>\<open>_qjob_config\<close> is a map, so that a key that is absent
  (\<open>None\<close>) differs from a key whose value is Python's \<^verbatim>\<open>None\<close> (\<open>Some None\<close>).
\<close>

record ctx =
  self_backend :: "backend option"
  self_execute_config :: "execute_config option"
  self_qjob_config :: "string \<rightharpoonup> real option"
  self_random_seed :: "int option"
  self_random :: "rsource option"
  self_show_circuit_summary :: bool
  self_has_shared_circuits :: bool

definition init :: ctx where
  "init = \<lparr> self_backend = None, self_execute_config = None, self_qjob_config = Map.empty,
      self_random_seed = None, self_random = None, self_show_circuit_summary = False,
      self_has_shared_circuits = False \<rparr>"

subsection \<open>Collaborators\<close>

text \<open>
  Modelled from the spec: the \<^verbatim>\<open>Preferences\<close> class of \<^verbatim>\<open>qiskit_aqua_cmd\<close>,
  which is not among the sources. Its getters return the stored value, or the default
  they are given when nothing is stored.
\<close>

record prefs =
  stored_url :: "string option"
  stored_token :: "string option"
  stored_proxies :: "proxies option"

definition get_url :: "prefs \<Rightarrow> string option \<Rightarrow> string option" where
  "get_url p dflt = (case stored_url p of None \<Rightarrow> dflt | Some u \<Rightarrow> Some u)"

definition get_token :: "prefs \<Rightarrow> string option \<Rightarrow> string option" where
  "get_token p dflt = (case stored_token p of None \<Rightarrow> dflt | Some t \<Rightarrow> Some t)"

definition get_proxies :: "prefs \<Rightarrow> proxies \<Rightarrow> proxies" where
  "get_proxies p dflt = (case stored_proxies p of None \<Rightarrow> dflt | Some x \<Rightarrow> x)"

text \<open>
  The world outside the module, as one setup or discovery call sees it:
  \<^item> \<open>preferences\<close>: what \<^verbatim>\<open>Preferences()\<close> yields, or the exception it raises;
  \<^item> \<open>aer_backends\<close>: the names of \<^verbatim>\<open>qiskit.Aer.backends()\<close>;
  \<^item> \<open>aer_get_backend\<close>: \<^verbatim>\<open>qiskit.Aer.get_backend(name)\<close>;
  \<^item> \<open>ibmq_register\<close>: building \<^verbatim>\<open>Credentials(token, url, proxies)\<close> and storing
    the \<^verbatim>\<open>IBMQSingleProvider\<close> made of them in the registry of \<^verbatim>\<open>qiskit.IBMQ\<close>;
  \<^item> \<open>ibmq_backends\<close>: the names of \<^verbatim>\<open>qiskit.IBMQ.backends(url, token)\<close>;
  \<^item> \<open>ibmq_get_backend\<close>: \<^verbatim>\<open>qiskit.IBMQ.get_backend(name, url, token)\<close>.

  Each call that can raise returns \<open>Inl\<close> of the exception. The errors are the
  subclasses of \<^verbatim>\<open>Exception\<close>. The registry of \<^verbatim>\<open>qiskit.IBMQ\<close> itself is not
  part of the state modelled here.
\<close>

record env =
  preferences :: "error + prefs"
  aer_backends :: "string list"
  aer_get_backend :: "string \<Rightarrow> error + backend option"
  ibmq_register :: "string \<times> string \<times> proxies \<Rightarrow> error + unit"
  ibmq_backends :: "string option \<Rightarrow> string option \<Rightarrow> error + string list"
  ibmq_get_backend :: "string \<Rightarrow> string option \<Rightarrow> string option \<Rightarrow> error + backend option"

subsection \<open>Class constants\<close>

definition UNSUPPORTED_BACKENDS :: "string list" where
  "UNSUPPORTED_BACKENDS = [''unitary_simulator'', ''clifford_simulator'']"

definition EQUIVALENT_BACKENDS :: "(string \<times> string) list" where
  "EQUIVALENT_BACKENDS =
     [(''statevector_simulator_py'', ''statevector_simulator''),
      (''statevector_simulator_sympy'', ''statevector_simulator''),
      (''statevector_simulator_projectq'', ''statevector_simulator''),
      (''qasm_simulator_py'', ''qasm_simulator''),
      (''qasm_simulator_projectq'', ''qasm_simulator'')]"

subsection \<open>Discovery: register_and_get_operational_backends\<close>

text \<open>
  The body of the \<^verbatim>\<open>try\<close> block: the value of \<^verbatim>\<open>ibmq_backends\<close> when the block
  runs to its end, or the exception that leaves it.
\<close>

definition try_register :: "env \<Rightarrow> error + string list" where
  "try_register e =
     (case preferences e of
        Inl ex \<Rightarrow> Inl ex
      | Inr p \<Rightarrow>
          (let url = get_url p None;
               token = get_token p None;
               credentials =
                 (case (url, token) of
                    (Some u, Some t) \<Rightarrow>
                      if u \<noteq> [] \<and> t \<noteq> [] then Some (t, u, get_proxies p []) else None
                  | _ \<Rightarrow> None)
           in case credentials of
                None \<Rightarrow> Inr []
              | Some cr \<Rightarrow>
                  (case ibmq_register e cr of
                     Inl ex \<Rightarrow> Inl ex
                   | Inr _ \<Rightarrow> ibmq_backends e url token)))"

text \<open>\<^verbatim>\<open>except Exception\<close>: the list stays as it was before the block, empty.\<close>

definition ibmq_names :: "env \<Rightarrow> string list" where
  "ibmq_names e = (case try_register e of Inl ex \<Rightarrow> [] | Inr ns \<Rightarrow> ns)"

text \<open>The inner loop: \<^verbatim>\<open>supported\<close> after running over the unsupported prefixes.\<close>

fun supported :: "string \<Rightarrow> string list \<Rightarrow> bool" where
  "supported b [] = True"
| "supported b (u # us) = (if startswith b u then False else supported b us)"

text \<open>
  \<^verbatim>\<open>backends\<close> is a Python set. It is kept as a list without repetition, in the
  order of insertion; Python fixes no order for \<^verbatim>\<open>list(backends)\<close>, and nothing
  below depends on the one chosen here.
\<close>

definition set_add :: "'a \<Rightarrow> 'a list \<Rightarrow> 'a list" where
  "set_add x xs = (if x \<in> set xs then xs else xs @ [x])"

fun aer_loop :: "string list \<Rightarrow> string list \<Rightarrow> string list" where
  "aer_loop [] backends = backends"
| "aer_loop (aer_backend # rest) backends =
     aer_loop rest
       (if supported aer_backend UNSUPPORTED_BACKENDS then set_add aer_backend backends
        else backends)"

definition register_and_get_operational_backends :: "env \<Rightarrow> string list" where
  "register_and_get_operational_backends e =
     (let ibmq_backends = ibmq_names e;
          backends = aer_loop (aer_backends e) []
      in backends @ ibmq_backends)"

subsection \<open>Small methods\<close>

definition is_statevector_backend :: "backend option \<Rightarrow> bool" where
  "is_statevector_backend b =
     (case b of None \<Rightarrow> False | Some x \<Rightarrow> startswith (conf_backend_name x) ''statevector'')"

definition backend_name :: "backend option \<Rightarrow> string" where
  "backend_name b = (case b of None \<Rightarrow> [] | Some x \<Rightarrow> conf_backend_name x)"

definition enable_circuit_summary :: "ctx \<Rightarrow> ctx" where
  "enable_circuit_summary c = c\<lparr>self_show_circuit_summary := True\<rparr>"

definition disable_circuit_summary :: "ctx \<Rightarrow> ctx" where
  "disable_circuit_summary c = c\<lparr>self_show_circuit_summary := False\<rparr>"

definition has_shared_circuits_setter :: "bool \<Rightarrow> ctx \<Rightarrow> ctx" where
  "has_shared_circuits_setter new_value c = c\<lparr>self_has_shared_circuits := new_value\<rparr>"

subsection \<open>The random source\<close>

definition random_seed_setter :: "int option \<Rightarrow> ctx \<Rightarrow> ctx" where
  "random_seed_setter seed c = c\<lparr>self_random_seed := seed\<rparr>"

text \<open>
  \<^verbatim>\<open>np.random.RandomState(seed)\<close> for an integer seed, as numpy has it: the seed
  must lie between 0 and 2**32 - 1, any other raises \<^verbatim>\<open>ValueError\<close>. \<open>addr\<close> is
  the address the new object gets.
\<close>

definition np_random_RandomState :: "nat \<Rightarrow> int \<Rightarrow> error + rsource" where
  "np_random_RandomState addr seed =
     (if 0 \<le> seed \<and> seed \<le> 2 ^ 32 - 1 then Inr (RandomState addr seed)
      else Inl (ValueError ''Seed must be between 0 and 2**32 - 1''))"

text \<open>
  The \<^verbatim>\<open>random\<close> property: what the read returns or raises, the heap and the
  context after it. \<open>fresh\<close> is the next free address of the heap: a
  \<^verbatim>\<open>RandomState\<close> that gets built takes it, so that two objects built from one seed
  still differ. When the constructor raises, the assignment to \<^verbatim>\<open>_random\<close> does not
  happen.
\<close>

definition random_getter :: "nat \<Rightarrow> ctx \<Rightarrow> (error + rsource) \<times> nat \<times> ctx" where
  "random_getter fresh c =
     (case self_random c of
        None \<Rightarrow>
          (case self_random_seed c of
             None \<Rightarrow> (Inr NpRandom, fresh, c\<lparr>self_random := Some NpRandom\<rparr>)
           | Some seed \<Rightarrow>
               (case np_random_RandomState fresh seed of
                  Inl ex \<Rightarrow> (Inl ex, fresh, c)
                | Inr r \<Rightarrow> (Inr r, Suc fresh, c\<lparr>self_random := Some r\<rparr>)))
      | Some r \<Rightarrow> (Inr r, fresh, c))"

text \<open>
  What a caller can do to the source over the life of a context: read the property or
  assign the seed. \<open>run_accesses\<close> collects what the reads return or raise, in order;
  a caller that catches the exception of one read can go on to the next.
\<close>

datatype access = GetRandom | SetSeed "int option"

fun run_accesses :: "access list \<Rightarrow> nat \<Rightarrow> ctx \<Rightarrow> (error + rsource) list" where
  "run_accesses [] fresh c = []"
| "run_accesses (GetRandom # as) fresh c =
     (case random_getter fresh c of (r, fresh', c') \<Rightarrow> r # run_accesses as fresh' c')"
| "run_accesses (SetSeed seed # as) fresh c = run_accesses as fresh (random_seed_setter seed c)"

subsection \<open>setup_quantum_backend\<close>

record setup_args =
  backend :: "backend_ref option"
  shots :: int
  skip_transpiler :: bool
  noise_params :: "noise_params option"
  coupling_map :: "coupling option"
  initial_layout :: "layout option"
  hpc_params :: "hpc option"
  basis_gates :: "gates option"
  max_credits :: int
  timeout :: "real option"
  wait :: real

text \<open>The defaults of the signature.\<close>

definition default_args :: setup_args where
  "default_args = \<lparr> backend = Some (Name ''statevector_simulator''), shots = 1024,
      skip_transpiler = False, noise_params = None, coupling_map = None,
      initial_layout = None, hpc_params = None, basis_gates = None, max_credits = 10,
      timeout = None, wait = 5 \<rparr>"

text \<open>
  The message of the error for a name that is not operational. The string literal of
  the source runs over two lines, joined by a backslash: the blank before the backslash
  and the 37 blanks that indent the second line are part of the message.
\<close>

definition not_operational_message :: "string \<Rightarrow> string list \<Rightarrow> string" where
  "not_operational_message name operational_backends =
     ''This backend '' @ [squote] @ name @ [squote] @ '' is not operational for the quantum algorithm, ''
       @ replicate 37 (CHR '' '') @ ''select any one below: '' @ py_str_list operational_backends"

text \<open>Lines 165 to 169: a name is checked against a fresh discovery, a handle is not.\<close>

definition check_operational :: "env \<Rightarrow> backend_ref \<Rightarrow> error + unit" where
  "check_operational e r =
     (case r of
        Handle b \<Rightarrow> Inr ()
      | Name n \<Rightarrow>
          (let operational_backends = register_and_get_operational_backends e
           in if dict_get EQUIVALENT_BACKENDS n n \<notin> set operational_backends
              then Inl (AquaError (not_operational_message n operational_backends))
              else Inr ()))"

text \<open>
  Lines 174 to 189: a handle is taken as it is; a name is looked up at the Aer
  provider, and at the IBMQ provider when Aer raises \<^verbatim>\<open>KeyError\<close>. The name handed
  to the providers is the one the caller gave.
\<close>

definition get_my_backend :: "env \<Rightarrow> backend_ref \<Rightarrow> error + backend" where
  "get_my_backend e r =
     (case r of
        Handle b \<Rightarrow> Inr b
      | Name n \<Rightarrow>
          (let found =
                 (case aer_get_backend e n of
                    Inl (KeyError k) \<Rightarrow>
                      (case preferences e of
                         Inl ex \<Rightarrow> Inl ex
                       | Inr p \<Rightarrow>
                           ibmq_get_backend e n (get_url p (Some [])) (get_token p (Some [])))
                  | other \<Rightarrow> other)
           in case found of
                Inl ex \<Rightarrow> Inl ex
              | Inr None \<Rightarrow> Inl (AquaError (''Missing algorithm backend '' @ [squote] @ n @ [squote]))
              | Inr (Some b) \<Rightarrow> Inr b))"

text \<open>Lines 191 to 216, on the handle found.\<close>

definition derive_config :: "setup_args \<Rightarrow> backend \<Rightarrow> ctx \<Rightarrow> ctx" where
  "derive_config a my_backend c0 =
     (let c1 = c0\<lparr>self_backend := Some my_backend\<rparr>;
          shots' = (if is_statevector_backend (Some my_backend) then 1 else shots a);
          noise_params' = (if conf_simulator my_backend then noise_params a else None);
          c2 = (if conf_local my_backend
                then c1\<lparr>self_qjob_config := (self_qjob_config c1)(''wait'' := None)\<rparr>
                else c1);
          coupling_map' =
            (case coupling_map a of None \<Rightarrow> conf_coupling_map my_backend | Some m \<Rightarrow> Some m);
          basis_gates' =
            (case basis_gates a of None \<Rightarrow> conf_basis_gates my_backend | Some g \<Rightarrow> Some g);
          basis_gates'' =
            (case basis_gates' of
               Some (GList l) \<Rightarrow> Some (GStr (py_str_list l))
             | other \<Rightarrow> other)
      in c2\<lparr>self_execute_config := Some
            \<lparr> ec_shots = shots',
              ec_skip_transpiler = skip_transpiler a,
              ec_config_noise_params = noise_params',
              ec_basis_gates = basis_gates'',
              ec_coupling_map = coupling_map',
              ec_initial_layout = initial_layout a,
              ec_max_credits = max_credits a,
              ec_seed = self_random_seed c2,
              ec_qobj_id = None,
              ec_hpc = hpc_params a \<rparr>\<rparr>)"

text \<open>
  The whole method: the outcome (an exception, or \<^verbatim>\<open>None\<close> returned) and the
  context as the call leaves it. The two log lines at the end are left out.
\<close>

definition setup_quantum_backend :: "env \<Rightarrow> setup_args \<Rightarrow> ctx \<Rightarrow> (error + unit) \<times> ctx" where
  "setup_quantum_backend e a c =
     (case backend a of
        None \<Rightarrow> (Inl (AquaError ''Missing algorithm backend''), c)
      | Some r \<Rightarrow>
          (case check_operational e r of
             Inl ex \<Rightarrow> (Inl ex, c)
           | Inr _ \<Rightarrow>
               (let c' = c\<lparr>self_qjob_config :=
                           [''timeout'' \<mapsto> timeout a, ''wait'' \<mapsto> Some (wait a)]\<rparr>
                in case get_my_backend e r of
                     Inl ex \<Rightarrow> (Inl ex, c')
                   | Inr my_backend \<Rightarrow> (Inr (), derive_config a my_backend c'))))"

subsection \<open>execute\<close>

text \<open>
  \<^verbatim>\<open>run_circuits\<close> is the runner of \<^verbatim>\<open>qiskit_aqua.utils\<close>; it is a parameter
  here, a function of the six arguments that \<^verbatim>\<open>execute\<close> hands it, which returns a
  result or raises. It gets the flag as a value and has no way to assign a field of
  the instance.
\<close>

type_synonym ('c, 'r) runner =
  "'c \<Rightarrow> backend option \<Rightarrow> execute_config option \<Rightarrow> (string \<rightharpoonup> real option)
     \<Rightarrow> bool \<Rightarrow> bool \<Rightarrow> error + 'r"

definition execute :: "('c, 'r) runner \<Rightarrow> 'c \<Rightarrow> ctx \<Rightarrow> (error + 'r) \<times> ctx" where
  "execute run_circuits circuits c =
     (case run_circuits circuits (self_backend c) (self_execute_config c) (self_qjob_config c)
             (self_show_circuit_summary c) (self_has_shared_circuits c) of
        Inl ex \<Rightarrow> (Inl ex, c)
      | Inr result \<Rightarrow>
          (Inr result, if self_show_circuit_summary c then disable_circuit_summary c else c))"

subsection \<open>Example worlds\<close>

text \<open>
  Concrete backends and provider states, for running the definitions. The local
  provider offers the compiled simulators, their Python variants and the two
  simulators the class does not support; the device \<open>ibmqx4\<close> is remote.
\<close>

definition five_gates :: "string list" where
  "five_gates = [''u1'', ''u2'', ''u3'', ''cx'', ''id'']"

definition local_simulator :: "string \<Rightarrow> backend" where
  "local_simulator n = \<lparr> conf_backend_name = n, conf_simulator = True, conf_local = True,
      conf_basis_gates = Some (GList five_gates), conf_coupling_map = None \<rparr>"

definition ibmqx4 :: backend where
  "ibmqx4 = \<lparr> conf_backend_name = ''ibmqx4'', conf_simulator = False, conf_local = False,
      conf_basis_gates = Some (GStr ''u1,u2,u3,cx,id''),
      conf_coupling_map = Some [[1, 0], [2, 0], [2, 1], [3, 2], [3, 4], [4, 2]] \<rparr>"

text \<open>A provider's lookup by name: \<^verbatim>\<open>KeyError\<close> for a name it does not have.\<close>

definition lookup_by_name :: "backend list \<Rightarrow> string \<Rightarrow> error + backend option" where
  "lookup_by_name known n =
     (case find (\<lambda>b. conf_backend_name b = n) known of
        None \<Rightarrow> Inl (KeyError n)
      | Some b \<Rightarrow> Inr (Some b))"

definition not_found :: error where
  "not_found = OtherError ''No backend matches the criteria''"

text \<open>No credentials stored: only the local provider answers.\<close>

definition local_env :: env where
  "local_env =
     \<lparr> preferences = Inr \<lparr> stored_url = None, stored_token = None, stored_proxies = None \<rparr>,
       aer_backends = [''qasm_simulator'', ''qasm_simulator_py'', ''statevector_simulator'',
         ''statevector_simulator_py'', ''unitary_simulator'', ''clifford_simulator''],
       aer_get_backend = lookup_by_name
         [local_simulator ''qasm_simulator'', local_simulator ''qasm_simulator_py'',
          local_simulator ''statevector_simulator'', local_simulator ''statevector_simulator_py''],
       ibmq_register = (\<lambda>cr. Inr ()),
       ibmq_backends = (\<lambda>url token. Inr []),
       ibmq_get_backend = (\<lambda>n url token. Inl not_found) \<rparr>"

text \<open>
  Credentials stored and accepted; the remote provider lists a device, a name the local
  provider lists too, and a name with an unsupported prefix.
\<close>

definition remote_env :: env where
  "remote_env = local_env
     \<lparr> preferences := Inr \<lparr> stored_url = Some ''https://q.example/api'',
         stored_token = Some ''t0k'', stored_proxies = None \<rparr>,
       ibmq_backends := (\<lambda>url token. Inr [''ibmqx4'', ''qasm_simulator'', ''unitary_simulator'']),
       ibmq_get_backend :=
         (\<lambda>n url token. if n = ''ibmqx4'' then Inr (Some ibmqx4) else Inl not_found) \<rparr>"

text \<open>
  As \<open>remote_env\<close>, with a remote provider that also answers to the alias
  \<open>qasm_simulator_projectq\<close>, a name the local provider does not have.
\<close>

definition remote_projectq :: backend where
  "remote_projectq = \<lparr> conf_backend_name = ''qasm_simulator_projectq'', conf_simulator = True,
      conf_local = False, conf_basis_gates = Some (GStr ''u1,u2,u3,cx,id''),
      conf_coupling_map = None \<rparr>"

definition alias_remote_env :: env where
  "alias_remote_env = remote_env
     \<lparr> ibmq_get_backend :=
         (\<lambda>n url token. if n = ''qasm_simulator_projectq'' then Inr (Some remote_projectq)
            else Inl not_found) \<rparr>"

text \<open>Credentials stored, and the remote listing raises.\<close>

definition failing_env :: env where
  "failing_env = remote_env
     \<lparr> ibmq_backends := (\<lambda>url token. Inl (OtherError ''connection refused'')) \<rparr>"

text \<open>Two runners over circuits numbered by naturals: one returns, one raises.\<close>

definition counting_runner :: "(nat list, nat) runner" where
  "counting_runner circuits b ec qc show_summary shared = Inr (length circuits)"

definition raising_runner :: "(nat list, nat) runner" where
  "raising_runner circuits b ec qc show_summary shared = Inl (OtherError ''job failed'')"

text \<open>A gate name between single quotes, and a context with a seed and both flags set.\<close>

definition quoted :: "string \<Rightarrow> string" where
  "quoted s = [squote] @ s @ [squote]"

definition busy_ctx :: ctx where
  "busy_ctx =
     enable_circuit_summary (has_shared_circuits_setter True (random_seed_setter (Some 42) init))"

section \<open>Properties\<close>

lemmas env_defs = local_env_def remote_env_def failing_env_def lookup_by_name_def
  local_simulator_def not_found_def five_gates_def ibmqx4_def

lemmas disc_defs = register_and_get_operational_backends_def ibmq_names_def try_register_def
  get_url_def get_token_def get_proxies_def UNSUPPORTED_BACKENDS_def set_add_def

subsection \<open>Discovery\<close>

text \<open>The inner loop says whether no unsupported prefix starts the name.\<close>

lemma supported_iff: "supported b us \<longleftrightarrow> (\<forall>u \<in> set us. \<not> startswith b u)"
  by (induction us) auto

lemma set_set_add: "set (set_add x xs) = insert x (set xs)"
  by (auto simp: set_add_def)

lemma distinct_set_add: "distinct xs \<Longrightarrow> distinct (set_add x xs)"
  by (auto simp: set_add_def)

lemma set_aer_loop:
  "set (aer_loop xs acc) = set acc \<union> {x \<in> set xs. supported x UNSUPPORTED_BACKENDS}"
  by (induction xs arbitrary: acc) (auto simp: set_set_add)

lemma distinct_aer_loop: "distinct acc \<Longrightarrow> distinct (aer_loop xs acc)"
  by (induction xs arbitrary: acc) (auto simp: distinct_set_add)

lemma count_list_distinct: "distinct xs \<Longrightarrow> count_list xs x = (if x \<in> set xs then 1 else 0)"
  by (induction xs) auto

lemma discovery_split:
  "register_and_get_operational_backends e = aer_loop (aer_backends e) [] @ ibmq_names e"
  by (simp add: register_and_get_operational_backends_def)

lemma ibmq_names_local: "ibmq_names local_env = []"
  by (simp add: env_defs disc_defs)

lemma ibmq_names_remote:
  "ibmq_names remote_env = [''ibmqx4'', ''qasm_simulator'', ''unitary_simulator'']"
  by (simp add: env_defs disc_defs)

text \<open>
  C4, as the code has it. Discovery returns a list, not a set. Its members are the
  local names that pass the prefix filter together with the remote names, so as a
  membership test it is their union. Only the local part is free of repetition: a name
  occurs once for the local provider, if it passes the filter there, and once more for
  every time the remote provider lists it.
\<close>

theorem discovery_is_list_of_union:
  "set (register_and_get_operational_backends e) =
     {n \<in> set (aer_backends e). supported n UNSUPPORTED_BACKENDS} \<union> set (ibmq_names e)
   \<and> count_list (register_and_get_operational_backends e) n =
       (if n \<in> set (aer_backends e) \<and> supported n UNSUPPORTED_BACKENDS then 1 else 0)
         + count_list (ibmq_names e) n"
proof -
  have d: "distinct (aer_loop (aer_backends e) [])"
    by (rule distinct_aer_loop) simp
  have s: "set (aer_loop (aer_backends e) []) =
      {n \<in> set (aer_backends e). supported n UNSUPPORTED_BACKENDS}"
    by (simp add: set_aer_loop)
  have c: "count_list (aer_loop (aer_backends e) []) n =
      (if n \<in> set (aer_backends e) \<and> supported n UNSUPPORTED_BACKENDS then 1 else 0)"
    using count_list_distinct [OF d, of n] s by simp
  show ?thesis
    using s c by (simp add: discovery_split)
qed

text \<open>
  With a remote provider that lists \<open>qasm_simulator\<close> as the local one does: that name
  is counted twice, a name only the local provider has once, a filtered name never.
\<close>

theorem discovery_is_list_of_union_witness:
  "count_list (register_and_get_operational_backends remote_env) ''qasm_simulator'' = 2
   \<and> count_list (register_and_get_operational_backends remote_env) ''statevector_simulator'' = 1
   \<and> count_list (register_and_get_operational_backends remote_env) ''clifford_simulator'' = 0"
  using discovery_is_list_of_union [of remote_env "''qasm_simulator''"]
    discovery_is_list_of_union [of remote_env "''statevector_simulator''"]
    discovery_is_list_of_union [of remote_env "''clifford_simulator''"]
  by (simp add: ibmq_names_remote UNSUPPORTED_BACKENDS_def) (simp add: env_defs)

text \<open>
  C4 as stated fails: when both providers report \<open>qasm_simulator\<close>, the returned list
  holds it more than once.
\<close>

theorem discovery_repeats_shared_name:
  "''qasm_simulator'' \<in> set (aer_backends remote_env)
   \<and> ibmq_backends remote_env (Some ''https://q.example/api'') (Some ''t0k'')
       = Inr [''ibmqx4'', ''qasm_simulator'', ''unitary_simulator'']
   \<and> \<not> distinct (register_and_get_operational_backends remote_env)"
  by (simp add: env_defs disc_defs)

text \<open>
  C6, as the code has it. The prefix filter runs over the local listing only. A name
  that starts with an unsupported prefix is in the result exactly when the remote
  provider reports it; the local provider reporting it never puts it there.
\<close>

theorem unsupported_only_from_remote:
  assumes "u \<in> set UNSUPPORTED_BACKENDS" and "startswith n u"
  shows "n \<in> set (register_and_get_operational_backends e) \<longleftrightarrow> n \<in> set (ibmq_names e)"
proof -
  have "\<not> supported n UNSUPPORTED_BACKENDS"
    using assms by (auto simp: supported_iff)
  then show ?thesis
    by (simp add: discovery_split set_aer_loop)
qed

text \<open>
  Without credentials the local provider lists \<open>unitary_simulator\<close>, and neither that
  name nor a longer one with the same prefix is returned.
\<close>

theorem unsupported_only_from_remote_witness:
  "''unitary_simulator'' \<in> set UNSUPPORTED_BACKENDS
   \<and> startswith ''unitary_simulator_py'' ''unitary_simulator''
   \<and> ''unitary_simulator'' \<in> set (aer_backends local_env)
   \<and> ''unitary_simulator'' \<notin> set (register_and_get_operational_backends local_env)
   \<and> ''unitary_simulator_py'' \<notin> set (register_and_get_operational_backends local_env)"
proof -
  have h1: "''unitary_simulator'' \<in> set UNSUPPORTED_BACKENDS"
    by (simp add: UNSUPPORTED_BACKENDS_def)
  have h2: "startswith ''unitary_simulator'' ''unitary_simulator''"
    by simp
  have h3: "startswith ''unitary_simulator_py'' ''unitary_simulator''"
    by simp
  show ?thesis
    using h1 h3 unsupported_only_from_remote [OF h1 h2, of local_env]
      unsupported_only_from_remote [OF h1 h3, of local_env]
    by (simp add: ibmq_names_local) (simp add: env_defs)
qed

text \<open>
  C6 as stated fails: a name with an unsupported prefix that the remote provider
  reports is returned.
\<close>

theorem remote_unsupported_name_is_returned:
  "''unitary_simulator'' \<in> set UNSUPPORTED_BACKENDS
   \<and> startswith ''unitary_simulator'' ''unitary_simulator''
   \<and> ''unitary_simulator'' \<in> set (register_and_get_operational_backends remote_env)"
  by (simp add: env_defs disc_defs)



subsection \<open>Setup\<close>

lemmas setup_defs = setup_quantum_backend_def check_operational_def get_my_backend_def
  derive_config_def default_args_def init_def is_statevector_backend_def dict_get_def
  EQUIVALENT_BACKENDS_def

text \<open>A setup call that returns went through the check and the lookup.\<close>

lemma setup_success:
  assumes "setup_quantum_backend e a c = (Inr (), c')"
  shows "\<exists>r b. backend a = Some r \<and> check_operational e r = Inr () \<and> get_my_backend e r = Inr b
    \<and> c' = derive_config a b
         (c\<lparr>self_qjob_config := [''timeout'' \<mapsto> timeout a, ''wait'' \<mapsto> Some (wait a)]\<rparr>)"
  using assms
  by (auto simp: setup_quantum_backend_def Let_def split: option.splits sum.splits)

lemma derive_config_backend: "self_backend (derive_config a b c) = Some b"
  by (simp add: derive_config_def Let_def)

lemma derive_config_shots:
  "\<exists>cfg. self_execute_config (derive_config a b c) = Some cfg
     \<and> ec_shots cfg = (if is_statevector_backend (Some b) then 1 else shots a)"
  by (simp add: derive_config_def Let_def)

lemma derive_config_qjob:
  "self_qjob_config (derive_config a b c) =
     (if conf_local b then (self_qjob_config c)(''wait'' := None) else self_qjob_config c)"
  by (simp add: derive_config_def Let_def)

lemma derive_config_basis_gates:
  "map_option ec_basis_gates (self_execute_config (derive_config a b c)) =
     Some (case (case basis_gates a of None \<Rightarrow> conf_basis_gates b | Some g \<Rightarrow> Some g) of
             Some (GList l) \<Rightarrow> Some (GStr (py_str_list l))
           | other \<Rightarrow> other)"
  by (simp add: derive_config_def Let_def)

text \<open>
  The basis gates a setup call resolves to: the argument, or the backend's own when the
  argument is \<^verbatim>\<open>None\<close>. When that is a list, what is stored is \<^verbatim>\<open>str\<close> of it.
\<close>

lemma setup_stores_python_str_of_list:
  assumes "setup_quantum_backend e a c = (Inr (), c')"
    and "self_backend c' = Some b"
    and "(case basis_gates a of None \<Rightarrow> conf_basis_gates b | Some g \<Rightarrow> Some g) = Some (GList l)"
  shows "map_option ec_basis_gates (self_execute_config c') = Some (Some (GStr (py_str_list l)))"
proof -
  obtain b' where c': "c' = derive_config a b'
         (c\<lparr>self_qjob_config := [''timeout'' \<mapsto> timeout a, ''wait'' \<mapsto> Some (wait a)]\<rparr>)"
    using setup_success [OF assms(1)] by blast
  have "b' = b"
    using assms(2) by (simp add: c' derive_config_backend)
  then show ?thesis
    using assms(3) by (simp add: c' derive_config_basis_gates)
qed

lemma setup_of_name:
  assumes "check_operational e (Name n) = Inr ()"
  shows "setup_quantum_backend e (a\<lparr>backend := Some (Name n)\<rparr>) c =
     (case get_my_backend e (Name n) of
        Inl ex \<Rightarrow> (Inl ex, c\<lparr>self_qjob_config := [''timeout'' \<mapsto> timeout a, ''wait'' \<mapsto> Some (wait a)]\<rparr>)
      | Inr b \<Rightarrow> (Inr (), derive_config (a\<lparr>backend := Some (Name n)\<rparr>) b
           (c\<lparr>self_qjob_config := [''timeout'' \<mapsto> timeout a, ''wait'' \<mapsto> Some (wait a)]\<rparr>)))"
  using assms by (simp add: setup_quantum_backend_def Let_def)

text \<open>Two setup calls on the example worlds, run to their end.\<close>

lemma setup_local_default:
  "setup_quantum_backend local_env (default_args\<lparr>shots := 4096\<rparr>) init =
    (Inr (), derive_config (default_args\<lparr>shots := 4096\<rparr>) (local_simulator ''statevector_simulator'')
       (init\<lparr>self_qjob_config := [''timeout'' \<mapsto> None, ''wait'' \<mapsto> Some 5]\<rparr>))"
  by (simp add: setup_defs env_defs disc_defs)

lemma setup_remote_device:
  "setup_quantum_backend remote_env (default_args\<lparr>backend := Some (Name ''ibmqx4'')\<rparr>) init =
    (Inr (), derive_config (default_args\<lparr>backend := Some (Name ''ibmqx4'')\<rparr>) ibmqx4
       (init\<lparr>self_qjob_config := [''timeout'' \<mapsto> None, ''wait'' \<mapsto> Some 5]\<rparr>))"
  by (simp add: setup_defs env_defs disc_defs)

text \<open>No canonical name of the alias table is an alias itself.\<close>

lemma alias_table_no_chains:
  "map_of EQUIVALENT_BACKENDS alias = Some canonical \<Longrightarrow> map_of EQUIVALENT_BACKENDS canonical = None"
  by (auto simp: EQUIVALENT_BACKENDS_def split: if_splits)

text \<open>The lookup of a name, spelled out on the providers.\<close>

lemma get_my_backend_of_name:
  "get_my_backend e (Name n) = Inr b \<longleftrightarrow>
     aer_get_backend e n = Inr (Some b)
     \<or> (\<exists>k p. aer_get_backend e n = Inl (KeyError k) \<and> preferences e = Inr p
           \<and> ibmq_get_backend e n (get_url p (Some [])) (get_token p (Some [])) = Inr (Some b))"
  by (auto simp: get_my_backend_def split: sum.splits error.splits option.splits)

text \<open>
  C2, as the code has it. For an alias and its canonical name, with the canonical name
  among the operational names, setup by either name \<open>n\<close> passes the operational check.
  The providers are then asked for \<open>n\<close> itself, the alias is not replaced by its
  canonical name: if \<^verbatim>\<open>Aer.get_backend(n)\<close> returns a handle, setup returns and
  stores that handle; if it raises \<^verbatim>\<open>KeyError\<close> and \<^verbatim>\<open>IBMQ.get_backend(n, ...)\<close>
  returns a handle, setup returns and stores that one; and setup returns in no other
  case.
\<close>

theorem alias_checked_by_canonical_looked_up_as_given:
  assumes "map_of EQUIVALENT_BACKENDS alias = Some canonical"
    and "canonical \<in> set (register_and_get_operational_backends e)"
    and "n = alias \<or> n = canonical"
  shows "check_operational e (Name n) = Inr ()
    \<and> (\<forall>b. aer_get_backend e n = Inr (Some b) \<longrightarrow>
          fst (setup_quantum_backend e (a\<lparr>backend := Some (Name n)\<rparr>) c) = Inr ()
          \<and> self_backend (snd (setup_quantum_backend e (a\<lparr>backend := Some (Name n)\<rparr>) c)) = Some b)
    \<and> (\<forall>k p b. aer_get_backend e n = Inl (KeyError k) \<and> preferences e = Inr p
          \<and> ibmq_get_backend e n (get_url p (Some [])) (get_token p (Some [])) = Inr (Some b) \<longrightarrow>
          fst (setup_quantum_backend e (a\<lparr>backend := Some (Name n)\<rparr>) c) = Inr ()
          \<and> self_backend (snd (setup_quantum_backend e (a\<lparr>backend := Some (Name n)\<rparr>) c)) = Some b)
    \<and> (fst (setup_quantum_backend e (a\<lparr>backend := Some (Name n)\<rparr>) c) = Inr () \<longrightarrow>
          (\<exists>b. aer_get_backend e n = Inr (Some b)
             \<or> (\<exists>k p. aer_get_backend e n = Inl (KeyError k) \<and> preferences e = Inr p
                   \<and> ibmq_get_backend e n (get_url p (Some [])) (get_token p (Some []))
                       = Inr (Some b))))"
proof -
  let ?S = "setup_quantum_backend e (a\<lparr>backend := Some (Name n)\<rparr>) c"
  have "dict_get EQUIVALENT_BACKENDS n n = canonical"
    using assms(1,3) alias_table_no_chains [OF assms(1)] by (auto simp: dict_get_def)
  then have ok: "check_operational e (Name n) = Inr ()"
    using assms(2) by (simp add: check_operational_def)
  have found: "fst ?S = Inr () \<and> self_backend (snd ?S) = Some b"
    if "get_my_backend e (Name n) = Inr b" for b
    using that by (simp add: setup_of_name [OF ok] derive_config_backend)
  have returns: "\<exists>b. get_my_backend e (Name n) = Inr b" if "fst ?S = Inr ()"
    using that by (auto simp: setup_of_name [OF ok] split: sum.splits)
  have local: "fst ?S = Inr () \<and> self_backend (snd ?S) = Some b"
    if "aer_get_backend e n = Inr (Some b)" for b
    using that found [of b] by (simp add: get_my_backend_of_name)
  have remote: "fst ?S = Inr () \<and> self_backend (snd ?S) = Some b"
    if "aer_get_backend e n = Inl (KeyError k)" and "preferences e = Inr p"
      and "ibmq_get_backend e n (get_url p (Some [])) (get_token p (Some [])) = Inr (Some b)"
    for k p b
    using that found [of b] get_my_backend_of_name [of e n b] by blast
  have only: "\<exists>b. aer_get_backend e n = Inr (Some b)
             \<or> (\<exists>k p. aer_get_backend e n = Inl (KeyError k) \<and> preferences e = Inr p
                   \<and> ibmq_get_backend e n (get_url p (Some [])) (get_token p (Some []))
                       = Inr (Some b))"
    if "fst ?S = Inr ()"
    using returns [OF that] by (simp add: get_my_backend_of_name)
  show ?thesis
    using ok local remote only by blast
qed

text \<open>
  The local provider knows \<open>statevector_simulator_py\<close> and \<open>statevector_simulator\<close>
  as two backends: each setup call stores the one it asked for. The alias
  \<open>qasm_simulator_projectq\<close> is unknown to the local provider and known to the remote
  one: setup stores the remote handle of that name.
\<close>

theorem alias_checked_by_canonical_looked_up_as_given_witness:
  "map_of EQUIVALENT_BACKENDS ''statevector_simulator_py'' = Some ''statevector_simulator''
   \<and> ''statevector_simulator'' \<in> set (register_and_get_operational_backends local_env)
   \<and> aer_get_backend local_env ''statevector_simulator_py''
       = Inr (Some (local_simulator ''statevector_simulator_py''))
   \<and> aer_get_backend local_env ''statevector_simulator''
       = Inr (Some (local_simulator ''statevector_simulator''))
   \<and> self_backend (snd (setup_quantum_backend local_env
         (default_args\<lparr>backend := Some (Name ''statevector_simulator_py'')\<rparr>) init))
       = Some (local_simulator ''statevector_simulator_py'')
   \<and> self_backend (snd (setup_quantum_backend local_env
         (default_args\<lparr>backend := Some (Name ''statevector_simulator'')\<rparr>) init))
       = Some (local_simulator ''statevector_simulator'')
   \<and> map_of EQUIVALENT_BACKENDS ''qasm_simulator_projectq'' = Some ''qasm_simulator''
   \<and> ''qasm_simulator'' \<in> set (register_and_get_operational_backends alias_remote_env)
   \<and> aer_get_backend alias_remote_env ''qasm_simulator_projectq''
       = Inl (KeyError ''qasm_simulator_projectq'')
   \<and> fst (setup_quantum_backend alias_remote_env
         (default_args\<lparr>backend := Some (Name ''qasm_simulator_projectq'')\<rparr>) init) = Inr ()
   \<and> self_backend (snd (setup_quantum_backend alias_remote_env
         (default_args\<lparr>backend := Some (Name ''qasm_simulator_projectq'')\<rparr>) init))
       = Some remote_projectq"
proof -
  have h1: "map_of EQUIVALENT_BACKENDS ''statevector_simulator_py'' = Some ''statevector_simulator''"
    by (simp add: EQUIVALENT_BACKENDS_def)
  have h2: "''statevector_simulator'' \<in> set (register_and_get_operational_backends local_env)"
    by (simp add: env_defs disc_defs)
  have g1: "aer_get_backend local_env ''statevector_simulator_py''
       = Inr (Some (local_simulator ''statevector_simulator_py''))"
    by (simp add: env_defs)
  have g2: "aer_get_backend local_env ''statevector_simulator''
       = Inr (Some (local_simulator ''statevector_simulator''))"
    by (simp add: env_defs)
  have k1: "map_of EQUIVALENT_BACKENDS ''qasm_simulator_projectq'' = Some ''qasm_simulator''"
    by (simp add: EQUIVALENT_BACKENDS_def)
  have k2: "''qasm_simulator'' \<in> set (register_and_get_operational_backends alias_remote_env)"
    by (simp add: alias_remote_env_def env_defs disc_defs)
  have k3: "aer_get_backend alias_remote_env ''qasm_simulator_projectq''
       = Inl (KeyError ''qasm_simulator_projectq'')"
    by (simp add: alias_remote_env_def env_defs)
  have k4: "preferences alias_remote_env = Inr \<lparr> stored_url = Some ''https://q.example/api'',
         stored_token = Some ''t0k'', stored_proxies = None \<rparr>"
    by (simp add: alias_remote_env_def env_defs)
  have k5: "ibmq_get_backend alias_remote_env ''qasm_simulator_projectq''
        (get_url \<lparr> stored_url = Some ''https://q.example/api'',
           stored_token = Some ''t0k'', stored_proxies = None \<rparr> (Some []))
        (get_token \<lparr> stored_url = Some ''https://q.example/api'',
           stored_token = Some ''t0k'', stored_proxies = None \<rparr> (Some []))
       = Inr (Some remote_projectq)"
    by (simp add: alias_remote_env_def env_defs)
  show ?thesis
    using h1 h2 g1 g2 k1 k2 k3
      alias_checked_by_canonical_looked_up_as_given
        [OF h1 h2, of "''statevector_simulator_py''" default_args init]
      alias_checked_by_canonical_looked_up_as_given
        [OF h1 h2, of "''statevector_simulator''" default_args init]
      alias_checked_by_canonical_looked_up_as_given
        [OF k1 k2, of "''qasm_simulator_projectq''" default_args init]
      k4 k5
    by blast
qed

text \<open>
  C2 as stated fails. \<open>statevector_simulator\<close> is operational and setup by that name
  returns. Setup by its alias \<open>statevector_simulator_projectq\<close>, which no provider
  knows, raises the remote provider's error; setup by its alias
  \<open>statevector_simulator_py\<close> returns with another backend than the canonical one.
\<close>

theorem alias_setup_fails_or_resolves_elsewhere:
  "map_of EQUIVALENT_BACKENDS ''statevector_simulator_projectq'' = Some ''statevector_simulator''
   \<and> map_of EQUIVALENT_BACKENDS ''statevector_simulator_py'' = Some ''statevector_simulator''
   \<and> ''statevector_simulator'' \<in> set (register_and_get_operational_backends local_env)
   \<and> fst (setup_quantum_backend local_env default_args init) = Inr ()
   \<and> fst (setup_quantum_backend local_env
         (default_args\<lparr>backend := Some (Name ''statevector_simulator_projectq'')\<rparr>) init)
       = Inl (OtherError ''No backend matches the criteria'')
   \<and> backend_name (self_backend (snd (setup_quantum_backend local_env default_args init)))
       = ''statevector_simulator''
   \<and> backend_name (self_backend (snd (setup_quantum_backend local_env
         (default_args\<lparr>backend := Some (Name ''statevector_simulator_py'')\<rparr>) init)))
       = ''statevector_simulator_py''"
  by (simp add: setup_defs env_defs disc_defs backend_name_def)

text \<open>
  What \<^verbatim>\<open>str\<close> makes of a list is never the names joined by commas: it is longer,
  by the brackets and the quotes at least.
\<close>

lemma length_py_repr_char: "1 \<le> length (py_repr_char q c)"
  by (simp add: py_repr_char_def Let_def)

lemma length_concat_repr: "length s \<le> length (concat (map (py_repr_char q) s))"
proof (induction s)
  case Nil
  show ?case by simp
next
  case (Cons c s)
  then show ?case
    using length_py_repr_char [of q c] by simp
qed

lemma length_py_repr_str: "length s + 2 \<le> length (py_repr_str s)"
  using length_concat_repr [of s] by (simp add: py_repr_str_def Let_def)

lemma length_join_repr:
  "length (join '','' xs) \<le> length (join '', '' (map py_repr_str xs))"
proof (induction "'',''" xs rule: join.induct)
  case 1
  show ?case by simp
next
  case (2 x)
  show ?case using length_py_repr_str [of x] by simp
next
  case (3 x y ys)
  then show ?case using length_py_repr_str [of x] by simp
qed

lemma python_str_is_not_comma_joined: "py_str_list xs \<noteq> join '','' xs"
proof
  assume "py_str_list xs = join '','' xs"
  then have "length (py_str_list xs) = length (join '','' xs)"
    by simp
  then show False
    using length_join_repr [of xs] by (simp add: py_str_list_def)
qed

text \<open>
  C3. The docstring of setup has \<^verbatim>\<open>basis_gates\<close> as a comma-separated string,
  and the code turns a list into a string with \<^verbatim>\<open>str\<close>. For the five gates of the
  local simulators that is the text \<^verbatim>\<open>['u1', 'u2', 'u3', 'cx', 'id']\<close>, brackets,
  quotes and blanks included, and not \<^verbatim>\<open>u1,u2,u3,cx,id\<close>.
\<close>

theorem basis_gates_list_stored_as_python_str:
  "basis_gates default_args = None
   \<and> get_my_backend local_env (Name ''statevector_simulator'')
       = Inr (local_simulator ''statevector_simulator'')
   \<and> conf_basis_gates (local_simulator ''statevector_simulator'')
       = Some (GList [''u1'', ''u2'', ''u3'', ''cx'', ''id''])
   \<and> map_option ec_basis_gates
       (self_execute_config (snd (setup_quantum_backend local_env default_args init)))
       = Some (Some (GStr (''['' @ quoted ''u1'' @ '', '' @ quoted ''u2'' @ '', '' @ quoted ''u3''
            @ '', '' @ quoted ''cx'' @ '', '' @ quoted ''id'' @ '']'')))
   \<and> map_option ec_basis_gates
       (self_execute_config (snd (setup_quantum_backend local_env default_args init)))
       \<noteq> Some (Some (GStr ''u1,u2,u3,cx,id''))"
  by (simp add: setup_defs env_defs disc_defs quoted_def py_str_list_def py_repr_str_def
      py_repr_char_def squote_def dquote_def backslash_def Let_def)

text \<open>
  C5. After a setup call that returns, if the backend it resolved is a statevector
  backend, the stored execution configuration has one shot, whatever was asked for.
\<close>

theorem statevector_shots_one:
  assumes "setup_quantum_backend e a c = (Inr (), c')"
    and "is_statevector_backend (self_backend c')"
  shows "\<exists>cfg. self_execute_config c' = Some cfg \<and> ec_shots cfg = 1"
proof -
  obtain r b where b: "get_my_backend e r = Inr b"
    and c': "c' = derive_config a b
         (c\<lparr>self_qjob_config := [''timeout'' \<mapsto> timeout a, ''wait'' \<mapsto> Some (wait a)]\<rparr>)"
    using setup_success [OF assms(1)] by blast
  have "is_statevector_backend (Some b)"
    using assms(2) by (simp add: c' derive_config_backend)
  then show ?thesis
    using derive_config_shots [of a b] by (simp add: c')
qed

text \<open>4096 shots asked of the local statevector simulator.\<close>

theorem statevector_shots_one_witness:
  "fst (setup_quantum_backend local_env (default_args\<lparr>shots := 4096\<rparr>) init) = Inr ()
   \<and> is_statevector_backend
       (self_backend (snd (setup_quantum_backend local_env (default_args\<lparr>shots := 4096\<rparr>) init)))
   \<and> map_option ec_shots
       (self_execute_config (snd (setup_quantum_backend local_env (default_args\<lparr>shots := 4096\<rparr>) init)))
       = Some 1"
proof -
  let ?c = "derive_config (default_args\<lparr>shots := 4096\<rparr>) (local_simulator ''statevector_simulator'')
       (init\<lparr>self_qjob_config := [''timeout'' \<mapsto> None, ''wait'' \<mapsto> Some 5]\<rparr>)"
  have h1: "setup_quantum_backend local_env (default_args\<lparr>shots := 4096\<rparr>) init = (Inr (), ?c)"
    by (rule setup_local_default)
  have h2: "is_statevector_backend (self_backend ?c)"
    by (simp add: derive_config_backend is_statevector_backend_def local_simulator_def)
  show ?thesis
    using statevector_shots_one [OF h1 h2] h2 by (auto simp: h1)
qed

text \<open>
  C8. After a setup call that returns, the job configuration has no \<open>wait\<close> key when
  the resolved backend is local, and has it with the caller's value when it is not.
\<close>

theorem wait_dropped_iff_local:
  assumes "setup_quantum_backend e a c = (Inr (), c')"
    and "self_backend c' = Some b"
  shows "self_qjob_config c' ''wait'' = (if conf_local b then None else Some (Some (wait a)))"
proof -
  obtain b' where c': "c' = derive_config a b'
         (c\<lparr>self_qjob_config := [''timeout'' \<mapsto> timeout a, ''wait'' \<mapsto> Some (wait a)]\<rparr>)"
    using setup_success [OF assms(1)] by blast
  have "b' = b"
    using assms(2) by (simp add: c' derive_config_backend)
  then show ?thesis
    by (simp add: c' derive_config_qjob)
qed

text \<open>
  The local simulator loses the key and keeps \<open>timeout\<close>, whose value is Python's
  \<^verbatim>\<open>None\<close>; the remote device keeps the default of five seconds.
\<close>

theorem wait_dropped_iff_local_witness:
  "fst (setup_quantum_backend local_env (default_args\<lparr>shots := 4096\<rparr>) init) = Inr ()
   \<and> self_qjob_config (snd (setup_quantum_backend local_env (default_args\<lparr>shots := 4096\<rparr>) init))
       ''wait'' = None
   \<and> self_qjob_config (snd (setup_quantum_backend local_env (default_args\<lparr>shots := 4096\<rparr>) init))
       ''timeout'' = Some None
   \<and> fst (setup_quantum_backend remote_env (default_args\<lparr>backend := Some (Name ''ibmqx4'')\<rparr>) init)
       = Inr ()
   \<and> self_qjob_config
       (snd (setup_quantum_backend remote_env (default_args\<lparr>backend := Some (Name ''ibmqx4'')\<rparr>) init))
       ''wait'' = Some (Some 5)"
proof -
  let ?l = "derive_config (default_args\<lparr>shots := 4096\<rparr>) (local_simulator ''statevector_simulator'')
       (init\<lparr>self_qjob_config := [''timeout'' \<mapsto> None, ''wait'' \<mapsto> Some 5]\<rparr>)"
  let ?r = "derive_config (default_args\<lparr>backend := Some (Name ''ibmqx4'')\<rparr>) ibmqx4
       (init\<lparr>self_qjob_config := [''timeout'' \<mapsto> None, ''wait'' \<mapsto> Some 5]\<rparr>)"
  have l1: "setup_quantum_backend local_env (default_args\<lparr>shots := 4096\<rparr>) init = (Inr (), ?l)"
    by (rule setup_local_default)
  have l2: "self_backend ?l = Some (local_simulator ''statevector_simulator'')"
    by (rule derive_config_backend)
  have r1: "setup_quantum_backend remote_env (default_args\<lparr>backend := Some (Name ''ibmqx4'')\<rparr>) init
      = (Inr (), ?r)"
    by (rule setup_remote_device)
  have r2: "self_backend ?r = Some ibmqx4"
    by (rule derive_config_backend)
  have t: "self_qjob_config ?l ''timeout'' = Some None"
    by (simp add: derive_config_qjob)
  have w: "wait (default_args\<lparr>backend := Some (Name ''ibmqx4'')\<rparr>) = 5"
    by (simp add: default_args_def)
  have k: "conf_local (local_simulator ''statevector_simulator'')" "\<not> conf_local ibmqx4"
    by (simp_all add: local_simulator_def ibmqx4_def)
  show ?thesis
    using wait_dropped_iff_local [OF l1 l2] wait_dropped_iff_local [OF r1 r2] t
    by (simp add: l1 r1 w k)
qed

subsection \<open>Execute\<close>

text \<open>
  C1, as the code has it. The flag is cleared after the runner has returned. When the
  runner raises, the exception leaves \<^verbatim>\<open>execute\<close> before the flag is looked at,
  and the flag keeps the value it had.
\<close>

theorem summary_flag_after_execute:
  "self_show_circuit_summary (snd (execute run_circuits circuits c)) =
     (case fst (execute run_circuits circuits c) of
        Inl ex \<Rightarrow> self_show_circuit_summary c
      | Inr result \<Rightarrow> False)"
  by (simp add: execute_def disable_circuit_summary_def split: sum.splits)

text \<open>A runner that returns, with the flag on, and one that raises, with the flag off.\<close>

theorem summary_flag_after_execute_witness:
  "fst (execute counting_runner [7, 8] (enable_circuit_summary init)) = Inr 2
   \<and> self_show_circuit_summary (snd (execute counting_runner [7, 8] (enable_circuit_summary init)))
       = False
   \<and> fst (execute raising_runner [7, 8] init) = Inl (OtherError ''job failed'')
   \<and> self_show_circuit_summary (snd (execute raising_runner [7, 8] init)) = False"
proof -
  have r1: "fst (execute counting_runner [7, 8] (enable_circuit_summary init)) = Inr 2"
    by (simp add: execute_def counting_runner_def)
  have r2: "fst (execute raising_runner [7, 8] init) = Inl (OtherError ''job failed'')"
    by (simp add: execute_def raising_runner_def)
  have f0: "self_show_circuit_summary init = False"
    by (simp add: init_def)
  show ?thesis
    using summary_flag_after_execute [of counting_runner "[7, 8]" "enable_circuit_summary init"]
      summary_flag_after_execute [of raising_runner "[7, 8]" init]
    by (simp add: r1 r2 f0)
qed

text \<open>C1 as stated fails: the runner raises while the flag is on, and the flag stays on.\<close>

theorem summary_flag_stays_on_when_runner_raises:
  "self_show_circuit_summary (enable_circuit_summary init)
   \<and> fst (execute raising_runner [7, 8] (enable_circuit_summary init)) = Inl (OtherError ''job failed'')
   \<and> self_show_circuit_summary (snd (execute raising_runner [7, 8] (enable_circuit_summary init)))"
  by (simp add: execute_def raising_runner_def enable_circuit_summary_def)

text \<open>
  C10. Whether the runner returns or raises, \<^verbatim>\<open>execute\<close> leaves the backend, the
  execution configuration, the job configuration, the seed, the random source and the
  shared-circuits flag as they were.
\<close>

theorem execute_frame:
  "self_backend (snd (execute run_circuits circuits c)) = self_backend c
   \<and> self_execute_config (snd (execute run_circuits circuits c)) = self_execute_config c
   \<and> self_qjob_config (snd (execute run_circuits circuits c)) = self_qjob_config c
   \<and> self_random_seed (snd (execute run_circuits circuits c)) = self_random_seed c
   \<and> self_random (snd (execute run_circuits circuits c)) = self_random c
   \<and> self_has_shared_circuits (snd (execute run_circuits circuits c)) = self_has_shared_circuits c"
  by (simp add: execute_def disable_circuit_summary_def split: sum.splits)

text \<open>A context with a seed and both flags set, under both runners.\<close>

theorem execute_frame_witness:
  "self_random_seed (snd (execute counting_runner [7, 8] busy_ctx)) = Some 42
   \<and> self_has_shared_circuits (snd (execute counting_runner [7, 8] busy_ctx))
   \<and> \<not> self_show_circuit_summary (snd (execute counting_runner [7, 8] busy_ctx))
   \<and> self_random_seed (snd (execute raising_runner [7, 8] busy_ctx)) = Some 42
   \<and> self_has_shared_circuits (snd (execute raising_runner [7, 8] busy_ctx))
   \<and> self_backend (snd (execute raising_runner [7, 8] busy_ctx)) = None"
proof -
  have f: "self_random_seed busy_ctx = Some 42" "self_has_shared_circuits busy_ctx"
    "self_backend busy_ctx = None"
    by (simp_all add: busy_ctx_def enable_circuit_summary_def has_shared_circuits_setter_def
        random_seed_setter_def init_def)
  have g: "\<not> self_show_circuit_summary (snd (execute counting_runner [7, 8] busy_ctx))"
    by (simp add: execute_def counting_runner_def disable_circuit_summary_def)
  show ?thesis
    using execute_frame [of counting_runner "[7, 8]" busy_ctx]
      execute_frame [of raising_runner "[7, 8]" busy_ctx] f g
    by simp
qed

subsection \<open>The random source\<close>

text \<open>Only the property itself assigns the source.\<close>

lemma random_untouched_by_setup:
  "self_random (snd (setup_quantum_backend e a c)) = self_random c"
  by (simp add: setup_quantum_backend_def derive_config_def Let_def
      split: option.splits sum.splits)

lemma random_untouched_by_seed: "self_random (random_seed_setter seed c) = self_random c"
  by (simp add: random_seed_setter_def)

lemma random_getter_fixed:
  "self_random c = Some r \<Longrightarrow> random_getter fresh c = (Inr r, fresh, c)"
  by (simp add: random_getter_def)

lemma run_accesses_fixed:
  "self_random c = Some r \<Longrightarrow> \<forall>x \<in> set (run_accesses as fresh c). x = Inr r"
proof (induction as arbitrary: fresh c)
  case Nil
  show ?case by simp
next
  case (Cons a as)
  show ?case
  proof (cases a)
    case GetRandom
    then show ?thesis
      using Cons.IH [OF Cons.prems, of fresh] by (simp add: random_getter_fixed [OF Cons.prems])
  next
    case (SetSeed seed)
    have "self_random (random_seed_setter seed c) = Some r"
      using Cons.prems by (simp add: random_seed_setter_def)
    then show ?thesis
      using Cons.IH SetSeed by simp
  qed
qed

lemma random_getter_stores:
  "random_getter fresh c = (Inr r, fresh', c') \<Longrightarrow> self_random c' = Some r"
  by (auto simp: random_getter_def split: option.splits sum.splits)

text \<open>
  C9, as the code has it. On a context that has no source yet, a read of the property
  \<^item> returns \<^verbatim>\<open>numpy.random\<close> and stores it, when no seed is stored;
  \<^item> returns a new \<^verbatim>\<open>RandomState\<close> built from the stored seed and stores it, when
    the seed lies between 0 and 2**32 - 1;
  \<^item> raises the \<^verbatim>\<open>ValueError\<close> of numpy and leaves the context as it was, without a
    source, when the seed lies outside that range.

  After a read that has returned a source, every read returns this same object and
  none raises, with any assignments of the seed in between.
\<close>

theorem random_created_once:
  assumes "self_random c = None"
  shows "random_getter fresh c =
      (case self_random_seed c of
         None \<Rightarrow> (Inr NpRandom, fresh, c\<lparr>self_random := Some NpRandom\<rparr>)
       | Some seed \<Rightarrow>
           if 0 \<le> seed \<and> seed \<le> 2 ^ 32 - 1
           then (Inr (RandomState fresh seed), Suc fresh,
                 c\<lparr>self_random := Some (RandomState fresh seed)\<rparr>)
           else (Inl (ValueError ''Seed must be between 0 and 2**32 - 1''), fresh, c))
    \<and> (\<forall>r fresh' c'. random_getter fresh c = (Inr r, fresh', c') \<longrightarrow>
          self_random c' = Some r \<and> (\<forall>x \<in> set (run_accesses as fresh' c'). x = Inr r))"
proof -
  have first: "random_getter fresh c =
      (case self_random_seed c of
         None \<Rightarrow> (Inr NpRandom, fresh, c\<lparr>self_random := Some NpRandom\<rparr>)
       | Some seed \<Rightarrow>
           if 0 \<le> seed \<and> seed \<le> 2 ^ 32 - 1
           then (Inr (RandomState fresh seed), Suc fresh,
                 c\<lparr>self_random := Some (RandomState fresh seed)\<rparr>)
           else (Inl (ValueError ''Seed must be between 0 and 2**32 - 1''), fresh, c))"
    using assms
    by (simp add: random_getter_def np_random_RandomState_def split: option.splits)
  have later: "self_random c' = Some r \<and> (\<forall>x \<in> set (run_accesses as fresh' c'). x = Inr r)"
    if "random_getter fresh c = (Inr r, fresh', c')" for r fresh' c'
    using random_getter_stores [OF that] run_accesses_fixed [of c' r as fresh'] by simp
  show ?thesis
    using first later by blast
qed

text \<open>
  Seed 42, then reads with the seed set to 7, to -1 and taken away in between: every
  read gives the object built at address 3 from seed 42. Without a seed every read
  gives the shared module.
\<close>

theorem random_created_once_witness:
  "self_random (random_seed_setter (Some 42) init) = None
   \<and> random_getter 3 (random_seed_setter (Some 42) init) =
       (Inr (RandomState 3 42), 4,
        random_seed_setter (Some 42) init\<lparr>self_random := Some (RandomState 3 42)\<rparr>)
   \<and> set (run_accesses [SetSeed (Some 7), GetRandom, SetSeed (Some (- 1)), GetRandom,
             SetSeed None, GetRandom] 4
            (random_seed_setter (Some 42) init\<lparr>self_random := Some (RandomState 3 42)\<rparr>))
       \<subseteq> {Inr (RandomState 3 42)}
   \<and> run_accesses [GetRandom, SetSeed (Some 7), GetRandom, SetSeed None, GetRandom] 3
       (random_seed_setter (Some 42) init)
       = [Inr (RandomState 3 42), Inr (RandomState 3 42), Inr (RandomState 3 42)]
   \<and> run_accesses [GetRandom, SetSeed (Some 7), GetRandom] 3 init = [Inr NpRandom, Inr NpRandom]"
proof -
  let ?c = "random_seed_setter (Some 42) init"
  let ?c' = "?c\<lparr>self_random := Some (RandomState 3 42)\<rparr>"
  have h1: "self_random ?c = None"
    by (simp add: random_seed_setter_def init_def)
  have s: "self_random_seed ?c = Some 42"
    by (simp add: random_seed_setter_def)
  have h2: "random_getter 3 ?c = (Inr (RandomState 3 42), 4, ?c')"
    using random_created_once [OF h1, of 3 "[]"] by (simp add: s)
  have e1: "run_accesses [GetRandom, SetSeed (Some 7), GetRandom, SetSeed None, GetRandom] 3 ?c
       = [Inr (RandomState 3 42), Inr (RandomState 3 42), Inr (RandomState 3 42)]"
    by (simp add: random_getter_def np_random_RandomState_def random_seed_setter_def init_def)
  have e2: "run_accesses [GetRandom, SetSeed (Some 7), GetRandom] 3 init
       = [Inr NpRandom, Inr NpRandom]"
    by (simp add: random_getter_def random_seed_setter_def init_def)
  have "set (run_accesses [SetSeed (Some 7), GetRandom, SetSeed (Some (- 1)), GetRandom,
             SetSeed None, GetRandom] 4 ?c') \<subseteq> {Inr (RandomState 3 42)}"
    using h2 random_created_once
      [OF h1, of 3 "[SetSeed (Some 7), GetRandom, SetSeed (Some (- 1)), GetRandom,
             SetSeed None, GetRandom]"]
    by blast
  then show ?thesis
    using h1 h2 e1 e2 by blast
qed

text \<open>
  C9 as stated fails. With the seed -1 stored, the first read raises and creates no
  source; once the seed is changed to 7, the next read builds the source from 7.
\<close>

theorem random_read_raises_on_rejected_seed:
  "self_random_seed (random_seed_setter (Some (- 1)) init) = Some (- 1)
   \<and> random_getter 3 (random_seed_setter (Some (- 1)) init) =
       (Inl (ValueError ''Seed must be between 0 and 2**32 - 1''), 3,
        random_seed_setter (Some (- 1)) init)
   \<and> self_random (random_seed_setter (Some (- 1)) init) = None
   \<and> run_accesses [GetRandom, SetSeed (Some 7), GetRandom, GetRandom] 3
       (random_seed_setter (Some (- 1)) init)
       = [Inl (ValueError ''Seed must be between 0 and 2**32 - 1''),
          Inr (RandomState 3 7), Inr (RandomState 3 7)]"
  by (simp add: random_getter_def np_random_RandomState_def random_seed_setter_def init_def)

end
